theory Spec2Isabelle
  imports Complex_Main "HOL-Library.Multiset"
begin

section \<open>Numbers, dates and timestamps\<close>

text \<open>
  Python's \<^verbatim>\<open>float\<close> values are modelled by the rational numbers they denote and the
  arithmetic on them is exact: the rounding of each IEEE operation to the nearest double is
  not modelled. Every statement below about revenues, shares and thresholds is a statement
  about this exact arithmetic.
\<close>

type_synonym pyfloat = rat

text \<open>
  \<^verbatim>\<open>round(x, 2)\<close>: the nearest multiple of one hundredth, a tie going to the even
  neighbour.
\<close>

definition round_half_even :: "rat \<Rightarrow> int" where
  "round_half_even y =
     (let f = \<lfloor>y\<rfloor>; r = y - of_int f
      in if r < 1 / 2 then f
         else if 1 / 2 < r then f + 1
         else if even f then f else f + 1)"

definition round2 :: "pyfloat \<Rightarrow> pyfloat" where
  "round2 x = of_int (round_half_even (x * 100)) / 100"

section \<open>Schemas (\<^verbatim>\<open>wb/schemas.py\<close>)\<close>

text \<open>
  \<^verbatim>\<open>OrderItem\<close>: the fields that the router and the analysis read. The remaining
  fields of the schema are carried by the record's extension slot and are never read by
  the functions modelled here. \<^verbatim>\<open>last_change_date\<close> is a naive
  \<^verbatim>\<open>datetime\<close>, counted in microseconds from the midnight that starts the day of
  ordinal 0.
\<close>

type_synonym datetime = int

record OrderItem =
  last_change_date :: datetime
  supplier_article :: string
  nm_id :: int
  barcode :: string
  subject :: string
  brand :: string
  price_with_disc :: pyfloat
  is_cancel :: bool

datatype category = A | B | C

text \<open>\<^verbatim>\<open>ABCItem\<close>, field for field (each name prefixed with \<open>abc_\<close>).\<close>

record ABCItem =
  abc_supplier_article :: string
  abc_nm_id :: int
  abc_barcode :: string
  abc_subject :: string
  abc_brand :: string
  abc_category :: category
  abc_orders_count :: nat
  abc_revenue :: pyfloat
  abc_revenue_share :: pyfloat
  abc_cumulative_share :: pyfloat

section \<open>ABC analysis (\<^verbatim>\<open>wb/services/abc_analytics.py\<close>)\<close>

text \<open>
  One value of the \<^verbatim>\<open>aggregated\<close> dictionary: the six string keys of the source's
  inner dictionary, each prefixed with \<open>agg_\<close>.
\<close>

record agg =
  agg_supplier_article :: string
  agg_barcode :: string
  agg_subject :: string
  agg_brand :: string
  agg_orders_count :: nat
  agg_revenue :: pyfloat

text \<open>The value the \<^verbatim>\<open>defaultdict\<close> factory builds for a key that is not there yet.\<close>

definition default_agg :: agg where
  "default_agg =
     \<lparr>agg_supplier_article = [], agg_barcode = [], agg_subject = [], agg_brand = [],
      agg_orders_count = 0, agg_revenue = 0\<rparr>"

text \<open>
  The body of the aggregation loop on one dictionary value: the descriptive fields are
  written when the stored \<^verbatim>\<open>supplier_article\<close> is empty, then the counters grow.
\<close>

definition add_order :: "OrderItem \<Rightarrow> agg \<Rightarrow> agg" where
  "add_order order item =
     (let item1 =
        (if agg_supplier_article item = []
         then item\<lparr>agg_supplier_article := supplier_article order,
                   agg_barcode := barcode order,
                   agg_subject := subject order,
                   agg_brand := brand order\<rparr>
         else item)
      in item1\<lparr>agg_orders_count := agg_orders_count item1 + 1,
               agg_revenue := agg_revenue item1 + price_with_disc order\<rparr>)"

text \<open>
  The dictionary is an association list in insertion order, which is the order
  \<^verbatim>\<open>aggregated.items()\<close> iterates in: a key that is present is updated in place, a new
  key is appended.
\<close>

fun upd_aggregated :: "OrderItem \<Rightarrow> (int \<times> agg) list \<Rightarrow> (int \<times> agg) list" where
  "upd_aggregated order [] = [(nm_id order, add_order order default_agg)]"
| "upd_aggregated order ((k, item) # rest) =
     (if k = nm_id order then (k, add_order order item) # rest
      else (k, item) # upd_aggregated order rest)"

definition aggregate :: "OrderItem list \<Rightarrow> (int \<times> agg) list" where
  "aggregate filtered_orders = foldl (\<lambda>aggregated order. upd_aggregated order aggregated) [] filtered_orders"

definition assign_category :: "pyfloat \<Rightarrow> pyfloat \<Rightarrow> pyfloat \<Rightarrow> category" where
  "assign_category threshold_a threshold_b cumulative_share =
     (if cumulative_share \<le> threshold_a then A
      else if cumulative_share \<le> threshold_b then B
      else C)"

text \<open>The loop over \<^verbatim>\<open>sorted_items\<close>, with the running \<^verbatim>\<open>cumulative_share\<close>.\<close>

fun walk :: "pyfloat \<Rightarrow> pyfloat \<Rightarrow> pyfloat \<Rightarrow> pyfloat \<Rightarrow> (int \<times> agg) list \<Rightarrow> ABCItem list" where
  "walk total_revenue threshold_a threshold_b cumulative_share [] = []"
| "walk total_revenue threshold_a threshold_b cumulative_share ((k, data) # rest) =
     (let revenue_share = (agg_revenue data / total_revenue) * 100;
          cumulative_share1 = cumulative_share + revenue_share
      in \<lparr>abc_supplier_article = agg_supplier_article data,
           abc_nm_id = k,
           abc_barcode = agg_barcode data,
           abc_subject = agg_subject data,
           abc_brand = agg_brand data,
           abc_category = assign_category threshold_a threshold_b cumulative_share1,
           abc_orders_count = agg_orders_count data,
           abc_revenue = round2 (agg_revenue data),
           abc_revenue_share = round2 revenue_share,
           abc_cumulative_share = round2 cumulative_share1\<rparr>
         # walk total_revenue threshold_a threshold_b cumulative_share1 rest)"

text \<open>
  \<^verbatim>\<open>sorted(..., key=revenue, reverse=True)\<close> is a stable sort into descending revenue:
  the stable ascending sort on the negated key.
\<close>

definition sorted_items :: "(int \<times> agg) list \<Rightarrow> (int \<times> agg) list" where
  "sorted_items aggregated = sort_key (\<lambda>x. - agg_revenue (snd x)) aggregated"

definition filter_orders :: "bool \<Rightarrow> OrderItem list \<Rightarrow> OrderItem list" where
  "filter_orders exclude_cancelled orders =
     filter (\<lambda>order. \<not> (exclude_cancelled \<and> is_cancel order)) orders"

definition total_revenue :: "(int \<times> agg) list \<Rightarrow> pyfloat" where
  "total_revenue aggregated = sum_list (map (\<lambda>x. agg_revenue (snd x)) aggregated)"

definition calculate_abc_analysis ::
  "OrderItem list \<Rightarrow> pyfloat \<Rightarrow> pyfloat \<Rightarrow> bool \<Rightarrow> ABCItem list" where
  "calculate_abc_analysis orders threshold_a threshold_b exclude_cancelled =
     (let filtered_orders = filter_orders exclude_cancelled orders
      in if filtered_orders = [] then []
         else let aggregated = aggregate filtered_orders;
                  total = total_revenue aggregated
              in if total = 0 then []
                 else walk total threshold_a threshold_b 0 (sorted_items aggregated))"

section \<open>Calendar dates (\<^verbatim>\<open>datetime\<close> of the standard library)\<close>

record pydate =
  year :: nat
  month :: nat
  day :: nat

definition is_leap :: "nat \<Rightarrow> bool" where
  "is_leap y = (y mod 4 = 0 \<and> (y mod 100 \<noteq> 0 \<or> y mod 400 = 0))"

definition days_in_month :: "nat \<Rightarrow> nat \<Rightarrow> nat" where
  "days_in_month y m =
     (if m = 2 then (if is_leap y then 29 else 28)
      else if m \<in> {4, 6, 9, 11} then 30 else 31)"

definition days_before_year :: "nat \<Rightarrow> int" where
  "days_before_year y =
     (let y1 = int y - 1 in y1 * 365 + y1 div 4 - y1 div 100 + y1 div 400)"

definition days_before_month :: "nat \<Rightarrow> nat \<Rightarrow> int" where
  "days_before_month y m = int (sum_list (map (days_in_month y) [1 ..< m]))"

text \<open>\<^verbatim>\<open>date.toordinal()\<close>: 1 for 0001-01-01.\<close>

definition toordinal :: "pydate \<Rightarrow> int" where
  "toordinal d = days_before_year (year d) + days_before_month (year d) (month d) + int (day d)"

definition is_digit :: "char \<Rightarrow> bool" where
  "is_digit c = ((48::nat) \<le> of_char c \<and> (of_char c :: nat) \<le> 57)"

definition digit_val :: "char \<Rightarrow> nat" where
  "digit_val c = of_char c - 48"

text \<open>
  The day field of \<^verbatim>\<open>%d\<close>: two digits from 01 to 31, one digit from 1 to 9, or a
  blank and one digit, and nothing after it.
\<close>

fun parse_day :: "string \<Rightarrow> nat option" where
  "parse_day [a, b] =
     (if is_digit a \<and> is_digit b \<and> 1 \<le> digit_val a * 10 + digit_val b
          \<and> digit_val a * 10 + digit_val b \<le> 31
      then Some (digit_val a * 10 + digit_val b)
      else if a = CHR '' '' \<and> is_digit b \<and> 1 \<le> digit_val b then Some (digit_val b)
      else None)"
| "parse_day [a] = (if is_digit a \<and> 1 \<le> digit_val a then Some (digit_val a) else None)"
| "parse_day s = None"

text \<open>
  The month field of \<^verbatim>\<open>%m\<close> with the hyphen after it: two digits from 01 to 12 or
  one digit from 1 to 9. The result is the month and the rest of the text.
\<close>

fun parse_month :: "string \<Rightarrow> (nat \<times> string) option" where
  "parse_month (a # b # c # rest) =
     (if is_digit a \<and> is_digit b \<and> c = CHR ''-'' \<and> 1 \<le> digit_val a * 10 + digit_val b
          \<and> digit_val a * 10 + digit_val b \<le> 12
      then Some (digit_val a * 10 + digit_val b, rest)
      else if is_digit a \<and> 1 \<le> digit_val a \<and> b = CHR ''-'' then Some (digit_val a, c # rest)
      else None)"
| "parse_month [a, b] =
     (if is_digit a \<and> 1 \<le> digit_val a \<and> b = CHR ''-'' then Some (digit_val a, []) else None)"
| "parse_month s = None"

text \<open>
  \<^verbatim>\<open>datetime.strptime(s, "%Y-%m-%d")\<close> on ASCII text: four digits of year, the month,
  the day, and then the range checks of the \<^verbatim>\<open>datetime\<close> constructor. \<open>None\<close> is the
  \<^verbatim>\<open>ValueError\<close>.
\<close>

fun strptime :: "string \<Rightarrow> pydate option" where
  "strptime (y1 # y2 # y3 # y4 # h # rest) =
     (if is_digit y1 \<and> is_digit y2 \<and> is_digit y3 \<and> is_digit y4 \<and> h = CHR ''-''
      then (case parse_month rest of
              None \<Rightarrow> None
            | Some (m, rest1) \<Rightarrow>
                (case parse_day rest1 of
                   None \<Rightarrow> None
                 | Some d \<Rightarrow>
                     (let y = digit_val y1 * 1000 + digit_val y2 * 100 + digit_val y3 * 10 + digit_val y4
                      in if 1 \<le> y \<and> d \<le> days_in_month y m
                         then Some \<lparr>year = y, month = m, day = d\<rparr>
                         else None)))
      else None)"
| "strptime s = None"

definition microseconds_per_second :: int where
  "microseconds_per_second = 1000000"

definition microseconds_per_day :: int where
  "microseconds_per_day = 86400 * microseconds_per_second"

text \<open>The \<^verbatim>\<open>datetime\<close> at midnight of a date, as \<^verbatim>\<open>strptime\<close> returns it.\<close>

definition midnight :: "pydate \<Rightarrow> datetime" where
  "midnight d = toordinal d * microseconds_per_day"

text \<open>\<^verbatim>\<open>timedelta(days=1, seconds=-1)\<close>.\<close>

definition timedelta_one_day_less_one_second :: int where
  "timedelta_one_day_less_one_second = microseconds_per_day - microseconds_per_second"

section \<open>The HTTP client (\<^verbatim>\<open>wb/clients/core.py\<close>)\<close>

text \<open>
  The values the code puts into \<^verbatim>\<open>params\<close> and \<^verbatim>\<open>body\<close> dictionaries, and a
  dictionary as an association list in insertion order.
\<close>

datatype pyval = PyNone | PyStr string | PyInt int

type_synonym pydict = "(string \<times> pyval) list"

text \<open>What \<^verbatim>\<open>httpx.AsyncClient.request\<close> is called with.\<close>

record request =
  req_method :: string
  req_url :: string
  req_params :: "pydict option"
  req_json :: "pydict option"
  req_headers :: "(string \<times> string) list"

text \<open>
  What the transport does with a request: it answers with a status code, the text of the
  body and the decoded JSON value of the body (\<open>None\<close> when the body is not JSON), or it
  raises \<^verbatim>\<open>httpx.RequestError\<close> with a description of the cause. The type \<open>'j\<close>
  is the type of decoded JSON values.
\<close>

datatype 'j outcome = Response nat string "'j option" | RequestError string

text \<open>
  The \<^verbatim>\<open>detail\<close> texts of the router's two \<^verbatim>\<open>HTTPException\<close>s:
  \<open>OlderThan90Days\<close> is the Russian sentence saying that a report older than 90 days cannot
  be exported, \<open>ListOfOrdersIsEmpty\<close> is \<^verbatim>\<open>"List of orders is empty."\<close>.
\<close>

datatype detail = OlderThan90Days | ListOfOrdersIsEmpty

text \<open>The exceptions, one constructor for each class that is raised.\<close>

datatype exn =
    RuntimeError string
  | FetchError string
  | JSONDecodeError
  | ValidationError
  | ValueError
  | HTTPException nat detail

text \<open>
  \<^verbatim>\<open>APIClient\<close>: \<open>httpx_client\<close> is the attribute \<^verbatim>\<open>_client\<close>, \<open>None\<close> until
  \<^verbatim>\<open>__aenter__\<close> has run. The semaphore is not modelled: the model runs one call at a
  time.
\<close>

record 'j APIClient =
  httpx_client :: "(request \<Rightarrow> 'j outcome) option"
  api_key :: string

text \<open>
  The part of the world the code changes: the requests handed to the transport, oldest
  first, and the argument of each queued \<^verbatim>\<open>save_orders_to_db\<close> background task.
\<close>

record world =
  requests :: "request list"
  background_tasks :: "OrderItem list list"

definition quote :: char where
  "quote = CHR 0x27"

function str_nat :: "nat \<Rightarrow> string" where
  "str_nat n =
     (if n < 10 then [char_of (48 + n)]
      else str_nat (n div 10) @ [char_of (48 + n mod 10)])"
  by pat_completeness auto
termination
  by (relation "measure (\<lambda>n. n)") auto

definition str_int :: "int \<Rightarrow> string" where
  "str_int i = (if i < 0 then CHR ''-'' # str_nat (nat (- i)) else str_nat (nat i))"

text \<open>
  \<^verbatim>\<open>repr\<close> of a string is its text between single quotes; this is what Python prints
  for a text without quotes, backslashes and unprintable characters.
\<close>

definition repr_str :: "string \<Rightarrow> string" where
  "repr_str s = quote # s @ [quote]"

fun repr_pyval :: "pyval \<Rightarrow> string" where
  "repr_pyval PyNone = ''None''"
| "repr_pyval (PyStr s) = repr_str s"
| "repr_pyval (PyInt i) = str_int i"

fun join_items :: "pydict \<Rightarrow> string" where
  "join_items [] = []"
| "join_items [(k, v)] = repr_str k @ '': '' @ repr_pyval v"
| "join_items ((k, v) # rest) = repr_str k @ '': '' @ repr_pyval v @ '', '' @ join_items rest"

text \<open>How an f-string prints an optional dictionary.\<close>

fun str_dict :: "pydict option \<Rightarrow> string" where
  "str_dict None = ''None''"
| "str_dict (Some d) = ''{'' @ join_items d @ ''}''"

definition upper_char :: "char \<Rightarrow> char" where
  "upper_char c =
     (if (97::nat) \<le> of_char c \<and> (of_char c :: nat) \<le> 122 then char_of (of_char c - (32::nat)) else c)"

text \<open>\<^verbatim>\<open>str.upper\<close> on ASCII text.\<close>

definition upper :: "string \<Rightarrow> string" where
  "upper s = map upper_char s"

definition get_default_headers :: "'j APIClient \<Rightarrow> (string \<times> string) list" where
  "get_default_headers self =
     [(''Authorization'', api_key self), (''Content-Type'', ''application/json'')]"

text \<open>\<^verbatim>\<open>d[k] = v\<close> and \<^verbatim>\<open>{**d1, **d2}\<close> on insertion-ordered dictionaries.\<close>

fun dict_set :: "string \<Rightarrow> string \<Rightarrow> (string \<times> string) list \<Rightarrow> (string \<times> string) list" where
  "dict_set k v [] = [(k, v)]"
| "dict_set k v ((k1, v1) # rest) =
     (if k1 = k then (k1, v) # rest else (k1, v1) # dict_set k v rest)"

definition dict_merge :: "(string \<times> string) list \<Rightarrow> (string \<times> string) list \<Rightarrow> (string \<times> string) list" where
  "dict_merge d1 d2 = foldl (\<lambda>d kv. dict_set (fst kv) (snd kv) d) d1 d2"

text \<open>\<^verbatim>\<open>Response.is_success\<close>, which \<^verbatim>\<open>raise_for_status\<close> tests.\<close>

definition is_success :: "nat \<Rightarrow> bool" where
  "is_success status_code = (200 \<le> status_code \<and> status_code \<le> 299)"

definition request_failed_msg :: "string \<Rightarrow> pydict option \<Rightarrow> pydict option \<Rightarrow> nat \<Rightarrow> string \<Rightarrow> string" where
  "request_failed_msg url params body status_code text =
     ''Request failed (url='' @ url @ '', params='' @ str_dict params @ '', body='' @ str_dict body
       @ ''), status='' @ str_nat status_code @ '', response='' @ text"

definition client_error_msg :: "string \<Rightarrow> string \<Rightarrow> string" where
  "client_error_msg url e = ''HTTP client error for request url='' @ url @ ''. Details: '' @ e"

definition fetch ::
  "'j APIClient \<Rightarrow> string \<Rightarrow> pydict option \<Rightarrow> pydict option \<Rightarrow> string
     \<Rightarrow> (string \<times> string) list option \<Rightarrow> world \<Rightarrow> (exn + 'j) \<times> world" where
  "fetch self url params body method headers w =
     (case httpx_client self of
        None \<Rightarrow>
          (Inl (RuntimeError (''Client is not initialized. Use '' @ [quote] @ ''async with'' @ [quote] @ ''.'')), w)
      | Some transport \<Rightarrow>
          (let merged_headers =
                 dict_merge (get_default_headers self) (case headers of None \<Rightarrow> [] | Some h \<Rightarrow> h);
               req = \<lparr>req_method = upper method, req_url = url, req_params = params,
                      req_json = body, req_headers = merged_headers\<rparr>;
               w1 = w\<lparr>requests := requests w @ [req]\<rparr>
           in case transport req of
                RequestError e \<Rightarrow> (Inl (FetchError (client_error_msg url e)), w1)
              | Response status_code text js \<Rightarrow>
                  if \<not> is_success status_code
                  then (Inl (FetchError (request_failed_msg url params body status_code text)), w1)
                  else (case js of
                          None \<Rightarrow> (Inl JSONDecodeError, w1)
                        | Some j \<Rightarrow> (Inr j, w1))))"

section \<open>The orders endpoint (\<^verbatim>\<open>wb/clients/orders/api.py\<close>, \<^verbatim>\<open>wb/clients/urls.py\<close>)\<close>

definition SUPPLIER_ORDERS :: string where
  "SUPPLIER_ORDERS = ''v1/supplier/orders''"

record DateRangeRequest =
  date :: string

record DateRange =
  date_from :: DateRangeRequest
  date_to :: "DateRangeRequest option"

definition flag_val :: "int option \<Rightarrow> pyval" where
  "flag_val flag = (case flag of None \<Rightarrow> PyNone | Some f \<Rightarrow> PyInt f)"

text \<open>
  \<^verbatim>\<open>OrdersApi.get_orders\<close>. \<open>model_validate\<close> is
  \<^verbatim>\<open>OrdersResponse.model_validate\<close>: the order list of a JSON value of the expected
  shape, \<open>None\<close> (the \<^verbatim>\<open>ValidationError\<close>) for any other value.
\<close>

definition OrdersApi_get_orders ::
  "('j \<Rightarrow> OrderItem list option) \<Rightarrow> 'j APIClient \<Rightarrow> DateRangeRequest \<Rightarrow> int option \<Rightarrow> world
     \<Rightarrow> (exn + OrderItem list) \<times> world" where
  "OrdersApi_get_orders model_validate self d flag w =
     (case fetch self SUPPLIER_ORDERS
             (Some [(''dateFrom'', PyStr (date d)), (''flag'', flag_val flag)]) None ''GET'' None w of
        (Inl e, w1) \<Rightarrow> (Inl e, w1)
      | (Inr response, w1) \<Rightarrow>
          (case model_validate response of
             None \<Rightarrow> (Inl ValidationError, w1)
           | Some result \<Rightarrow> (Inr result, w1)))"

section \<open>The router (\<^verbatim>\<open>wb/routers/orders.py\<close>)\<close>

text \<open>\<^verbatim>\<open>Context\<close>; the database session is only passed on to the background task.\<close>

record 'j Context =
  client :: "'j APIClient"

text \<open>
  \<^verbatim>\<open>get_orders\<close> of the router. \<open>current_date\<close> is what
  \<^verbatim>\<open>datetime.now().date()\<close> returns when the request is handled.
\<close>

definition get_orders ::
  "('j \<Rightarrow> OrderItem list option) \<Rightarrow> pydate \<Rightarrow> 'j Context \<Rightarrow> DateRange \<Rightarrow> world
     \<Rightarrow> (exn + ABCItem list) \<times> world" where
  "get_orders model_validate current_date ctx date_range w =
     (case strptime (date (date_from date_range)) of
        None \<Rightarrow> (Inl ValueError, w)
      | Some date_from_dt \<Rightarrow>
          (let days_diff = toordinal current_date - toordinal date_from_dt
           in if days_diff > 90 then (Inl (HTTPException 400 OlderThan90Days), w)
              else
                (case (case date_to date_range of
                         Some dt \<Rightarrow>
                           (case OrdersApi_get_orders model_validate (client ctx) (date_from date_range) (Some 0) w of
                              (Inl e, w1) \<Rightarrow> (Inl e, w1)
                            | (Inr orders_response, w1) \<Rightarrow>
                                (case strptime (date dt) of
                                   None \<Rightarrow> (Inl ValueError, w1)
                                 | Some date_to_dt \<Rightarrow>
                                     (let date_to_end = midnight date_to_dt + timedelta_one_day_less_one_second
                                      in (Inr (filter (\<lambda>order. last_change_date order \<le> date_to_end)
                                                 orders_response), w1))))
                       | None \<Rightarrow>
                           OrdersApi_get_orders model_validate (client ctx) (date_from date_range) (Some 1) w) of
                   (Inl e, w1) \<Rightarrow> (Inl e, w1)
                 | (Inr orders, w1) \<Rightarrow>
                     if orders = [] then (Inl (HTTPException 400 ListOfOrdersIsEmpty), w1)
                     else (Inr (calculate_abc_analysis orders 80 95 True),
                           w1\<lparr>background_tasks := background_tasks w1 @ [orders]\<rparr>))))"

section \<open>Quantities the statements speak about\<close>

text \<open>
  The values the loop variable \<^verbatim>\<open>cumulative_share\<close> holds, before any rounding, at the
  successive \<^verbatim>\<open>result.append\<close> calls of the loop that \<open>walk\<close> models.
\<close>

fun running_shares :: "pyfloat \<Rightarrow> pyfloat \<Rightarrow> (int \<times> agg) list \<Rightarrow> pyfloat list" where
  "running_shares total_rev cumulative_share [] = []"
| "running_shares total_rev cumulative_share ((k, data) # rest) =
     (cumulative_share + (agg_revenue data / total_rev) * 100)
       # running_shares total_rev (cumulative_share + (agg_revenue data / total_rev) * 100) rest"




text \<open>An order with the given product id, article, barcode and price, not cancelled.\<close>

definition mk_order :: "int \<Rightarrow> string \<Rightarrow> string \<Rightarrow> pyfloat \<Rightarrow> OrderItem" where
  "mk_order k article code price =
     \<lparr>last_change_date = 0, supplier_article = article, nm_id = k, barcode = code,
      subject = ''subject_'' @ article, brand = ''brand_'' @ article,
      price_with_disc = price, is_cancel = False\<rparr>"






text \<open>Two orders of product 7: the first has an empty article, the second does not.\<close>

definition c6_orders :: "OrderItem list" where
  "c6_orders = [mk_order 7 [] ''111'' 100, mk_order 7 ''SKU2'' ''222'' 50]"




text \<open>A current date for the examples.\<close>

definition today :: pydate where
  "today = \<lparr>year = 2026, month = 11, day = 3\<rparr>"

text \<open>The world before a request is handled.\<close>

definition w0 :: world where
  "w0 = \<lparr>requests = [], background_tasks = []\<rparr>"

text \<open>An order last changed the given number of seconds after the midnight that starts a date.\<close>

definition at_time :: "pydate \<Rightarrow> int \<Rightarrow> OrderItem" where
  "at_time d seconds = (mk_order 1 ''X'' ''111'' 100)\<lparr>last_change_date := midnight d + seconds * microseconds_per_second\<rparr>"

text \<open>Three orders as the API returns them: last changed at 23:59:59 on 2026-10-02, at 00:00:00 on 2026-10-03, and on 2026-10-01.\<close>

definition api_orders :: "OrderItem list" where
  "api_orders =
     [at_time \<lparr>year = 2026, month = 10, day = 2\<rparr> 86399,
      at_time \<lparr>year = 2026, month = 10, day = 3\<rparr> 0,
      at_time \<lparr>year = 2026, month = 10, day = 1\<rparr> 5]"

text \<open>A context whose opened client receives status 200 and the given order list for every request; decoded bodies are order lists and \<open>Some\<close> validates them.\<close>

definition serving :: "OrderItem list \<Rightarrow> (OrderItem list) Context" where
  "serving os = \<lparr>client = \<lparr>httpx_client = Some (\<lambda>req. Response 200 ''[...]'' (Some os)), api_key = ''key''\<rparr>\<rparr>"


text \<open>A query with a start date only.\<close>

definition range_from :: "string \<Rightarrow> DateRange" where
  "range_from s = \<lparr>date_from = \<lparr>date = s\<rparr>, date_to = None\<rparr>"

text \<open>A query with a start date and an end date.\<close>

definition range_from_to :: "string \<Rightarrow> string \<Rightarrow> DateRange" where
  "range_from_to s e = \<lparr>date_from = \<lparr>date = s\<rparr>, date_to = Some \<lparr>date = e\<rparr>\<rparr>"

text \<open>The request of the orders endpoint in since mode: \<^verbatim>\<open>GET v1/supplier/orders\<close> with the start date and \<^verbatim>\<open>flag = 0\<close>, and the default headers.\<close>

definition since_request :: "'j APIClient \<Rightarrow> string \<Rightarrow> request" where
  "since_request self start =
     \<lparr>req_method = ''GET'', req_url = ''v1/supplier/orders'',
      req_params = Some [(''dateFrom'', PyStr start), (''flag'', PyInt 0)],
      req_json = None,
      req_headers = [(''Authorization'', api_key self), (''Content-Type'', ''application/json'')]\<rparr>"

text \<open>The start of the day after a date, less one second: the last whole second of the date.\<close>

definition end_of_day :: "pydate \<Rightarrow> datetime" where
  "end_of_day d = (toordinal d + 1) * (86400 * 1000000) - 1000000"



text \<open>A dictionary value carries the article, barcode, subject and brand of an order.\<close>

definition same_description :: "OrderItem \<Rightarrow> agg \<Rightarrow> bool" where
  "same_description order d \<longleftrightarrow>
     agg_supplier_article d = supplier_article order \<and> agg_barcode d = barcode order
     \<and> agg_subject d = subject order \<and> agg_brand d = brand order"

section \<open>Auxiliary facts about rounding, aggregation and the classification loop\<close>





lemma running_length: "length (running_shares t c xs) = length xs"
  by (induction t c xs rule: running_shares.induct) simp_all
























section \<open>The tier of an item\<close>




lemma set_sorted_items: "set (sorted_items xs) = set xs"
  by (simp add: sorted_items_def)









section \<open>When the classification is empty\<close>



section \<open>Order of the output\<close>




section \<open>A single product, and the worked example\<close>




section \<open>Descriptive fields of a product\<close>

text \<open>
  C6. The claim is that a row carries the article, barcode, subject and brand of the first
  record of its product. The aggregation loop recognises the first record by the stored
  article being empty, so a first record whose own article is empty is not recognised:
  the second record of product 7 overwrites all four fields.
\<close>

theorem first_record_fields_overwritten:
  "map (\<lambda>item. (abc_nm_id item, abc_supplier_article item, abc_barcode item, abc_subject item, abc_brand item))
     (calculate_abc_analysis c6_orders 80 95 True)
   = [(7, ''SKU2'', ''222'', ''subject_SKU2'', ''brand_SKU2'')]"
  by code_simp

lemma map_fst_upd_aggregated:
  "map fst (upd_aggregated order acc)
     = (if nm_id order \<in> set (map fst acc) then map fst acc else map fst acc @ [nm_id order])"
  by (induction order acc rule: upd_aggregated.induct) auto



lemma distinct_upd_aggregated:
  "distinct (map fst acc) \<Longrightarrow> distinct (map fst (upd_aggregated order acc))"
  by (simp add: map_fst_upd_aggregated)

lemma distinct_foldl_upd:
  "distinct (map fst acc)
     \<Longrightarrow> distinct (map fst (foldl (\<lambda>aggregated order. upd_aggregated order aggregated) acc fs))"
  by (induction fs arbitrary: acc) (simp_all add: distinct_upd_aggregated)

lemma distinct_aggregate: "distinct (map fst (aggregate fs))"
  using distinct_foldl_upd[of "[]" fs] by (simp add: aggregate_def)





section \<open>Products with equal revenue\<close>





section \<open>The 90-day check\<close>

text \<open>
  C3 (as amended). When the start date lies more than 90 days before the current date, the
  router fails with the HTTP 400 exception of the 90-day rule and the world is unchanged:
  no request is handed to the transport.
\<close>

theorem older_than_90_days_rejected:
  assumes "strptime (date (date_from date_range)) = Some d"
    and "90 < toordinal current_date - toordinal d"
  shows "get_orders model_validate current_date ctx date_range w
           = (Inl (HTTPException 400 OlderThan90Days), w)"
  using assms by (simp add: get_orders_def Let_def)

theorem older_than_90_days_rejected_witness:
  "strptime (date (date_from (range_from ''2026-01-01''))) = Some \<lparr>year = 2026, month = 1, day = 1\<rparr>
   \<and> 90 < toordinal today - toordinal \<lparr>year = 2026, month = 1, day = 1\<rparr>
   \<and> get_orders Some today (serving api_orders) (range_from ''2026-01-01'') w0
        = (Inl (HTTPException 400 OlderThan90Days), w0)"
proof -
  have p: "strptime (date (date_from (range_from ''2026-01-01''))) = Some \<lparr>year = 2026, month = 1, day = 1\<rparr>"
    by code_simp
  have d: "90 < toordinal today - toordinal \<lparr>year = 2026, month = 1, day = 1\<rparr>"
    by code_simp
  show ?thesis
    using p d older_than_90_days_rejected[OF p d, of Some "serving api_orders" w0] by simp
qed

text \<open>
  A start date in the future is not rejected: 2099-01-01 is more than 90 days away from
  2026-11-03, the exception of the 90-day rule is not raised and one request is sent.
\<close>

theorem future_start_date_counterexample:
  "90 < \<bar>toordinal today - toordinal \<lparr>year = 2099, month = 1, day = 1\<rparr>\<bar>
   \<and> strptime ''2099-01-01'' = Some \<lparr>year = 2099, month = 1, day = 1\<rparr>
   \<and> fst (get_orders Some today (serving api_orders) (range_from ''2099-01-01'') w0)
        \<noteq> Inl (HTTPException 400 OlderThan90Days)
   \<and> length (requests (snd (get_orders Some today (serving api_orders) (range_from ''2099-01-01'') w0))) = 1"
  by code_simp

lemma date_to_end: "midnight d + timedelta_one_day_less_one_second = end_of_day d"
  by (simp add: midnight_def timedelta_one_day_less_one_second_def end_of_day_def
      microseconds_per_day_def microseconds_per_second_def algebra_simps)



section \<open>An empty order collection\<close>

text \<open>
  C9. When the start date passes the 90-day check, the fetch succeeds, and the collected
  orders are empty (the fetched list itself without an end date, the list filtered by the
  end date with one), the router fails with the HTTP 400 exception that says the list of
  orders is empty; it returns no report.
\<close>

theorem empty_collection_is_error:
  assumes "strptime (date (date_from date_range)) = Some d"
    and "toordinal current_date - toordinal d \<le> 90"
    and "OrdersApi_get_orders model_validate (client ctx) (date_from date_range)
           (Some (case date_to date_range of None \<Rightarrow> 1 | Some dt \<Rightarrow> 0)) w = (Inr os, w1)"
    and "case date_to date_range of
           None \<Rightarrow> os = []
         | Some dt \<Rightarrow> strptime (date dt) = Some d2
             \<and> filter (\<lambda>order. last_change_date order \<le> end_of_day d2) os = []"
  shows "get_orders model_validate current_date ctx date_range w
           = (Inl (HTTPException 400 ListOfOrdersIsEmpty), w1)"
  using assms
  by (cases "date_to date_range") (simp_all add: get_orders_def Let_def date_to_end)

theorem empty_collection_is_error_witness:
  "strptime (date (date_from (range_from_to ''2026-10-01'' ''2026-09-30''))) = Some \<lparr>year = 2026, month = 10, day = 1\<rparr>
   \<and> toordinal today - toordinal \<lparr>year = 2026, month = 10, day = 1\<rparr> \<le> 90
   \<and> filter (\<lambda>order. last_change_date order \<le> end_of_day \<lparr>year = 2026, month = 9, day = 30\<rparr>) api_orders = []
   \<and> fst (get_orders Some today (serving api_orders) (range_from_to ''2026-10-01'' ''2026-09-30'') w0)
        = Inl (HTTPException 400 ListOfOrdersIsEmpty)"
proof -
  let ?dr = "range_from_to ''2026-10-01'' ''2026-09-30''"
  let ?w1 = "w0\<lparr>requests := requests w0 @ [since_request (client (serving api_orders)) ''2026-10-01'']\<rparr>"
  have p: "strptime (date (date_from ?dr)) = Some \<lparr>year = 2026, month = 10, day = 1\<rparr>"
    by code_simp
  have d: "toordinal today - toordinal \<lparr>year = 2026, month = 10, day = 1\<rparr> \<le> 90"
    by code_simp
  have f: "OrdersApi_get_orders Some (client (serving api_orders)) (date_from ?dr)
      (Some (case date_to ?dr of None \<Rightarrow> 1 | Some dt \<Rightarrow> 0)) w0 = (Inr api_orders, ?w1)"
    by code_simp
  have e: "filter (\<lambda>order. last_change_date order \<le> end_of_day \<lparr>year = 2026, month = 9, day = 30\<rparr>) api_orders = []"
    by code_simp
  have p2: "strptime ''2026-09-30'' = Some \<lparr>year = 2026, month = 9, day = 30\<rparr>"
    by code_simp
  have c: "case date_to ?dr of
           None \<Rightarrow> api_orders = []
         | Some dt \<Rightarrow> strptime (date dt) = Some \<lparr>year = 2026, month = 9, day = 30\<rparr>
             \<and> filter (\<lambda>order. last_change_date order \<le> end_of_day \<lparr>year = 2026, month = 9, day = 30\<rparr>) api_orders = []"
    using e p2 by (simp add: range_from_to_def)
  show ?thesis
    using p d e empty_collection_is_error[OF p d f c] by simp
qed

section \<open>A query with an end date\<close>



section \<open>Failures of a fetch\<close>




section \<open>Descriptive fields when the first article is not empty\<close>

text \<open>
  When the first counted record of a product has a non-empty article, the row of the product
  carries the four descriptive fields of that record, whatever the later records hold.
\<close>

lemma map_of_upd_aggregated:
  "map_of (upd_aggregated order acc)
     = (map_of acc)(nm_id order \<mapsto>
          add_order order (case map_of acc (nm_id order) of None \<Rightarrow> default_agg | Some d \<Rightarrow> d))"
  by (induction order acc rule: upd_aggregated.induct) auto

lemma add_order_keeps_description:
  "agg_supplier_article d \<noteq> [] \<Longrightarrow> same_description o1 d \<Longrightarrow> same_description o1 (add_order order d)"
  by (simp add: add_order_def same_description_def Let_def)

lemma add_order_default_description: "same_description order (add_order order default_agg)"
  by (simp add: add_order_def same_description_def default_agg_def Let_def)

lemma foldl_keeps_description:
  "map_of acc k = Some d \<Longrightarrow> supplier_article o1 \<noteq> [] \<Longrightarrow> same_description o1 d
     \<Longrightarrow> \<exists>d'. map_of (foldl (\<lambda>aggregated order. upd_aggregated order aggregated) acc fs) k = Some d'
            \<and> same_description o1 d'"
proof (induction fs arbitrary: acc d)
  case Nil
  then show ?case by simp
next
  case (Cons a fs)
  have art: "agg_supplier_article d \<noteq> []"
    using Cons.prems by (simp add: same_description_def)
  have "\<exists>d1. map_of (upd_aggregated a acc) k = Some d1 \<and> same_description o1 d1"
    using Cons.prems art add_order_keeps_description[of d o1 a]
    by (auto simp: map_of_upd_aggregated)
  then obtain d1 where "map_of (upd_aggregated a acc) k = Some d1" "same_description o1 d1"
    by blast
  then show ?case
    using Cons.IH[of "upd_aggregated a acc" d1] Cons.prems(2) by simp
qed

lemma foldl_first_description:
  "map_of acc k = None \<Longrightarrow> find (\<lambda>order. nm_id order = k) fs = Some o1 \<Longrightarrow> supplier_article o1 \<noteq> []
     \<Longrightarrow> \<exists>d'. map_of (foldl (\<lambda>aggregated order. upd_aggregated order aggregated) acc fs) k = Some d'
            \<and> same_description o1 d'"
proof (induction fs arbitrary: acc)
  case Nil
  then show ?case by simp
next
  case (Cons a fs)
  show ?case
  proof (cases "nm_id a = k")
    case True
    then have a: "a = o1"
      using Cons.prems by simp
    have "map_of (upd_aggregated a acc) k = Some (add_order o1 default_agg)"
      using True Cons.prems(1) a by (simp add: map_of_upd_aggregated)
    then show ?thesis
      using foldl_keeps_description[of "upd_aggregated a acc" k "add_order o1 default_agg" o1 fs]
        Cons.prems(3) add_order_default_description[of o1]
      by simp
  next
    case False
    then have "map_of (upd_aggregated a acc) k = None"
      using Cons.prems(1) by (simp add: map_of_upd_aggregated)
    then show ?thesis
      using Cons.IH[of "upd_aggregated a acc"] Cons.prems False by simp
  qed
qed

lemma walk_item_source:
  "item \<in> set (walk t a b c xs)
     \<Longrightarrow> \<exists>d. (abc_nm_id item, d) \<in> set xs
          \<and> abc_supplier_article item = agg_supplier_article d \<and> abc_barcode item = agg_barcode d
          \<and> abc_subject item = agg_subject d \<and> abc_brand item = agg_brand d"
  by (induction t a b c xs rule: walk.induct) (auto simp: Let_def)

lemma first_record_fields_kept_when_article_nonempty:
  assumes "item \<in> set (calculate_abc_analysis orders threshold_a threshold_b exclude_cancelled)"
    and "find (\<lambda>order. nm_id order = abc_nm_id item) (filter_orders exclude_cancelled orders) = Some o1"
    and "supplier_article o1 \<noteq> []"
  shows "abc_supplier_article item = supplier_article o1 \<and> abc_barcode item = barcode o1
    \<and> abc_subject item = subject o1 \<and> abc_brand item = brand o1"
proof -
  let ?ag = "aggregate (filter_orders exclude_cancelled orders)"
  have "item \<in> set (walk (total_revenue ?ag) threshold_a threshold_b 0 (sorted_items ?ag))"
    using assms(1) by (auto simp: calculate_abc_analysis_def Let_def split: if_splits)
  then have "\<exists>d. (abc_nm_id item, d) \<in> set (sorted_items ?ag)
          \<and> abc_supplier_article item = agg_supplier_article d \<and> abc_barcode item = agg_barcode d
          \<and> abc_subject item = agg_subject d \<and> abc_brand item = agg_brand d"
    by (rule walk_item_source)
  then obtain d where d: "(abc_nm_id item, d) \<in> set ?ag"
    "abc_supplier_article item = agg_supplier_article d" "abc_barcode item = agg_barcode d"
    "abc_subject item = agg_subject d" "abc_brand item = agg_brand d"
    unfolding set_sorted_items by blast
  then have m: "map_of ?ag (abc_nm_id item) = Some d"
    using distinct_aggregate[of "filter_orders exclude_cancelled orders"] by simp
  obtain d' where "map_of ?ag (abc_nm_id item) = Some d'" "same_description o1 d'"
    using foldl_first_description[of "[]" "abc_nm_id item" "filter_orders exclude_cancelled orders" o1]
      assms(2,3)
    by (auto simp: aggregate_def)
  then show ?thesis
    using m d by (simp add: same_description_def)
qed

end
